theory Spec2Isabelle
  imports Complex_Main
begin

section \<open>Exceptions and results\<close>

text \<open>
  The module \<^verbatim>\<open>basic_ae_module.py\<close> is glue over a training framework: almost every
  statement is a call into argparse, torch or pytorch-lightning. The embedding keeps the
  module's own control flow and data flow and takes every external callable as a
  parameter that either returns a value or raises an exception of the framework's
  (\<open>'e + 'a\<close>, \<open>Inl\<close> the exception).

  A failure of an operation of this module is one of three things: an exception raised by
  a \<^verbatim>\<open>raise\<close> statement of this file, an exception raised by a builtin operation
  this file applies (a dict or tuple subscript), or an exception that propagates out of an
  external call.
\<close>

datatype exc = KeyError string | ValueError string | IndexError string

datatype 'e failure = Raised exc | Implicit exc | Callee 'e

definition callee :: "'e + 'a \<Rightarrow> 'e failure + 'a" where
  "callee r = (case r of Inl e \<Rightarrow> Inl (Callee e) | Inr a \<Rightarrow> Inr a)"

text \<open>Sequencing of statements: the first failure ends the operation.\<close>

definition seq :: "'e failure + 'a \<Rightarrow> ('a \<Rightarrow> 'e failure + 'b) \<Rightarrow> 'e failure + 'b" where
  "seq r f = (case r of Inl e \<Rightarrow> Inl e | Inr a \<Rightarrow> f a)"

text \<open>
  A Python dict with string keys is an association list (insertion order is the order of
  \<^verbatim>\<open>keys()\<close>). \<^verbatim>\<open>k in d\<close> is \<open>contains\<close>; \<^verbatim>\<open>d[k]\<close> is
  \<open>subscript\<close>, which raises \<^verbatim>\<open>KeyError(k)\<close> on a missing key.
\<close>

definition contains :: "(string \<times> 'v) list \<Rightarrow> string \<Rightarrow> bool" where
  "contains d k = (k \<in> set (map fst d))"

definition subscript :: "(string \<times> 'v) list \<Rightarrow> string \<Rightarrow> 'e failure + 'v" where
  "subscript d k = (case map_of d k of None \<Rightarrow> Inl (Implicit (KeyError k)) | Some v \<Rightarrow> Inr v)"

text \<open>A parameter with a default value: \<open>None\<close> is an argument the caller left out.\<close>

definition arg_or :: "'a \<Rightarrow> 'a option \<Rightarrow> 'a" where
  "arg_or d a = (case a of None \<Rightarrow> d | Some v \<Rightarrow> v)"

section \<open>The class AE\<close>

subsection \<open>The registry of pretrained weights\<close>

definition pretrained_urls :: "(string \<times> string) list" where
  "pretrained_urls =
     [(''cifar10-resnet18'',
       ''https://pl-bolts-weights.s3.us-east-2.amazonaws.com/ae/ae-cifar10/checkpoints/epoch%3D96.ckpt'')]"

definition pretrained_weights_available :: "string list" where
  "pretrained_weights_available = map fst pretrained_urls"

text \<open>
  \<^verbatim>\<open>from_pretrained(self, checkpoint_name)\<close>. The framework's
  \<^verbatim>\<open>load_from_checkpoint(path, strict)\<close> is the parameter.
\<close>

definition from_pretrained :: "(string \<Rightarrow> bool \<Rightarrow> 'e + 'm) \<Rightarrow> string \<Rightarrow> 'e failure + 'm" where
  "from_pretrained load_from_checkpoint checkpoint_name =
     (if \<not> contains pretrained_urls checkpoint_name
      then Inl (Raised (KeyError (checkpoint_name @ '' not present in pretrained weights.'')))
      else seq (subscript pretrained_urls checkpoint_name)
             (\<lambda>url. callee (load_from_checkpoint url False)))"

subsection \<open>The constructor\<close>

text \<open>Values that travel through \<^verbatim>\<open>**kwargs\<close> and through parser declarations.\<close>

datatype pyval = PyStr string | PyInt int | PyFloat real | PyBool bool | PyNone

text \<open>
  The arguments of a call of \<^verbatim>\<open>__init__\<close> as its frame holds them: every parameter
  of the signature with the value the call gave it or its default, and \<^verbatim>\<open>**kwargs\<close>.
  \<^verbatim>\<open>self.save_hyperparameters()\<close> reads them from the frame and stores them on
  \<^verbatim>\<open>self\<close> as \<^verbatim>\<open>self.hparams\<close>.
\<close>

record hparams =
  hp_input_height :: int
  hp_enc_type :: string
  hp_first_conv :: bool
  hp_maxpool1 :: bool
  hp_enc_out_dim :: int
  hp_kl_coeff :: real
  hp_latent_dim :: int
  hp_lr :: real
  hp_kwargs :: "(string \<times> pyval) list"

text \<open>
  The external constructors \<^verbatim>\<open>__init__\<close> calls. \<open>'n\<close> is the type of network
  modules (\<^verbatim>\<open>nn.Module\<close>). \<^verbatim>\<open>super().__init__()\<close> acts on state the framework
  owns; \<^verbatim>\<open>save_hyperparameters\<close> is given the arguments it reads from the frame. Both
  may raise.
\<close>

record ('e, 'n) nn_lib =
  LightningModule_init :: "'e + unit"
  save_hyperparameters :: "hparams \<Rightarrow> 'e + unit"
  resnet18_encoder :: "bool \<Rightarrow> bool \<Rightarrow> 'e + 'n"
  resnet18_decoder :: "int \<Rightarrow> int \<Rightarrow> bool \<Rightarrow> bool \<Rightarrow> 'e + 'n"
  resnet50_encoder :: "bool \<Rightarrow> bool \<Rightarrow> 'e + 'n"
  resnet50_decoder :: "int \<Rightarrow> int \<Rightarrow> bool \<Rightarrow> bool \<Rightarrow> 'e + 'n"
  Linear :: "int \<Rightarrow> int \<Rightarrow> 'e + 'n"

text \<open>
  The attributes of \<^verbatim>\<open>self\<close> after \<^verbatim>\<open>__init__\<close>: the hyperparameters
  \<^verbatim>\<open>save_hyperparameters\<close> stored and the attributes the body assigns.
\<close>

record 'n AE =
  hparams :: hparams
  lr :: real
  enc_out_dim :: int
  latent_dim :: int
  input_height :: int
  encoder :: 'n
  decoder :: 'n
  fc :: 'n

text \<open>An entry of \<^verbatim>\<open>valid_encoders\<close>: the dict with the keys 'enc' and 'dec'.\<close>

record ('e, 'n) codec =
  enc :: "bool \<Rightarrow> bool \<Rightarrow> 'e + 'n"
  dec :: "int \<Rightarrow> int \<Rightarrow> bool \<Rightarrow> bool \<Rightarrow> 'e + 'n"

definition valid_encoders :: "('e, 'n) nn_lib \<Rightarrow> (string \<times> ('e, 'n) codec) list" where
  "valid_encoders lib =
     [(''resnet18'', \<lparr>enc = resnet18_encoder lib, dec = resnet18_decoder lib\<rparr>),
      (''resnet50'', \<lparr>enc = resnet50_encoder lib, dec = resnet50_decoder lib\<rparr>)]"

text \<open>
  The keyword arguments of \<^verbatim>\<open>__init__\<close> after \<^verbatim>\<open>input_height\<close>; \<open>kwargs\<close> is
  \<^verbatim>\<open>**kwargs\<close>, which the body never reads.
\<close>

record init_kwargs =
  kw_enc_type :: "string option"
  kw_first_conv :: "bool option"
  kw_maxpool1 :: "bool option"
  kw_enc_out_dim :: "int option"
  kw_kl_coeff :: "real option"
  kw_latent_dim :: "int option"
  kw_lr :: "real option"
  kwargs :: "(string \<times> pyval) list"

text \<open>
  Argument binding: the frame of a call of \<^verbatim>\<open>__init__\<close>, with the defaults of the
  signature for the keyword arguments the call leaves out.
\<close>

definition frame_args :: "int \<Rightarrow> init_kwargs \<Rightarrow> hparams" where
  "frame_args input_height' kw =
     \<lparr>hp_input_height = input_height',
      hp_enc_type = arg_or ''resnet18'' (kw_enc_type kw),
      hp_first_conv = arg_or False (kw_first_conv kw),
      hp_maxpool1 = arg_or False (kw_maxpool1 kw),
      hp_enc_out_dim = arg_or 512 (kw_enc_out_dim kw),
      hp_kl_coeff = arg_or (1 / 10) (kw_kl_coeff kw),
      hp_latent_dim = arg_or 256 (kw_latent_dim kw),
      hp_lr = arg_or (1 / 10 ^ 4) (kw_lr kw),
      hp_kwargs = kwargs kw\<rparr>"

definition AE_init :: "('e, 'n) nn_lib \<Rightarrow> int \<Rightarrow> init_kwargs \<Rightarrow> 'e failure + 'n AE" where
  "AE_init lib input_height' kw =
     (let frame = frame_args input_height' kw;
          enc_type = hp_enc_type frame;
          first_conv = hp_first_conv frame;
          maxpool1 = hp_maxpool1 frame;
          enc_out_dim' = hp_enc_out_dim frame;
          latent_dim' = hp_latent_dim frame;
          lr' = hp_lr frame
      in
      seq (callee (LightningModule_init lib)) (\<lambda>_.
      seq (callee (save_hyperparameters lib frame)) (\<lambda>_.
      seq (if \<not> contains (valid_encoders lib) enc_type
           then
             seq (callee (resnet18_encoder lib first_conv maxpool1)) (\<lambda>e.
             seq (callee (resnet18_decoder lib latent_dim' input_height' first_conv maxpool1)) (\<lambda>d.
             Inr (e, d)))
           else
             seq (subscript (valid_encoders lib) enc_type) (\<lambda>c.
             seq (callee (enc c first_conv maxpool1)) (\<lambda>e.
             seq (subscript (valid_encoders lib) enc_type) (\<lambda>c'.
             seq (callee (dec c' latent_dim' input_height' first_conv maxpool1)) (\<lambda>d.
             Inr (e, d))))))
        (\<lambda>(e, d).
      seq (callee (Linear lib enc_out_dim' latent_dim')) (\<lambda>f.
      Inr \<lparr>hparams = frame, lr = lr', enc_out_dim = enc_out_dim', latent_dim = latent_dim',
           input_height = input_height', encoder = e, decoder = d, fc = f\<rparr>)))))"

subsection \<open>Forward pass, loss and optimizer\<close>

text \<open>
  \<open>call\<close> applies a network module to a tensor (\<^verbatim>\<open>module(x)\<close>), \<open>mse_loss\<close> is
  \<^verbatim>\<open>F.mse_loss(input, target, reduction=...)\<close>; \<open>'t\<close> is the type of tensors.
\<close>

definition forward :: "('n \<Rightarrow> 't \<Rightarrow> 'e + 't) \<Rightarrow> 'n AE \<Rightarrow> 't \<Rightarrow> 'e failure + 't" where
  "forward call self z = callee (call (decoder self) z)"

definition step ::
  "('n \<Rightarrow> 't \<Rightarrow> 'e + 't) \<Rightarrow> ('t \<Rightarrow> 't \<Rightarrow> string \<Rightarrow> 'e + 't) \<Rightarrow> 'n AE \<Rightarrow> 't \<times> 'y \<Rightarrow> 'i
     \<Rightarrow> 'e failure + 't \<times> (string \<times> 't) list" where
  "step call mse_loss self batch batch_idx =
     (case batch of (x, y) \<Rightarrow>
      seq (callee (call (encoder self) x)) (\<lambda>feats.
      seq (callee (call (fc self) feats)) (\<lambda>z.
      seq (callee (call (decoder self) z)) (\<lambda>x_hat.
      seq (callee (mse_loss x_hat x ''mean'')) (\<lambda>loss.
      Inr (loss, [(''loss'', loss)]))))))"

text \<open>
  \<^verbatim>\<open>pl.TrainResult(minimize=loss)\<close> and \<^verbatim>\<open>pl.EvalResult(checkpoint_on=loss)\<close> build
  a result object \<open>'r\<close>; \<^verbatim>\<open>result.log_dict(d, on_step, on_epoch)\<close> updates it
  (\<open>None\<close> for a flag the call leaves to the framework's default).
\<close>

definition training_step ::
  "('n \<Rightarrow> 't \<Rightarrow> 'e + 't) \<Rightarrow> ('t \<Rightarrow> 't \<Rightarrow> string \<Rightarrow> 'e + 't) \<Rightarrow> ('t \<Rightarrow> 'e + 'r)
     \<Rightarrow> ('r \<Rightarrow> (string \<times> 't) list \<Rightarrow> bool option \<Rightarrow> bool option \<Rightarrow> 'e + 'r)
     \<Rightarrow> 'n AE \<Rightarrow> 't \<times> 'y \<Rightarrow> 'i \<Rightarrow> 'e failure + 'r" where
  "training_step call mse_loss TrainResult log_dict self batch batch_idx =
     seq (step call mse_loss self batch batch_idx) (\<lambda>(loss, logs).
     seq (callee (TrainResult loss)) (\<lambda>result.
     callee (log_dict result (map (\<lambda>(k, v). (''train_'' @ k, v)) logs) (Some True) (Some False))))"

definition validation_step ::
  "('n \<Rightarrow> 't \<Rightarrow> 'e + 't) \<Rightarrow> ('t \<Rightarrow> 't \<Rightarrow> string \<Rightarrow> 'e + 't) \<Rightarrow> ('t \<Rightarrow> 'e + 'r)
     \<Rightarrow> ('r \<Rightarrow> (string \<times> 't) list \<Rightarrow> bool option \<Rightarrow> bool option \<Rightarrow> 'e + 'r)
     \<Rightarrow> 'n AE \<Rightarrow> 't \<times> 'y \<Rightarrow> 'i \<Rightarrow> 'e failure + 'r" where
  "validation_step call mse_loss EvalResult log_dict self batch batch_idx =
     seq (step call mse_loss self batch batch_idx) (\<lambda>(loss, logs).
     seq (callee (EvalResult loss)) (\<lambda>result.
     callee (log_dict result (map (\<lambda>(k, v). (''val_'' @ k, v)) logs) None None)))"

text \<open>
  \<^verbatim>\<open>torch.optim.Adam(self.parameters(), lr=self.lr)\<close>: \<open>parameters\<close> is the
  framework's view of the model's learnable parameters, \<open>Adam\<close> the optimizer's
  constructor.
\<close>

definition configure_optimizers ::
  "('n AE \<Rightarrow> 'ps) \<Rightarrow> ('ps \<Rightarrow> real \<Rightarrow> 'e + 'opt) \<Rightarrow> 'n AE \<Rightarrow> 'e failure + 'opt" where
  "configure_optimizers parameters Adam self = callee (Adam (parameters self) (lr self))"

subsection \<open>Command-line arguments\<close>

text \<open>
  An \<^verbatim>\<open>ArgumentParser\<close> is the list of its declared arguments. A fresh parser
  declares the help option; a parser made with \<^verbatim>\<open>parents=[p], add_help=False\<close>
  starts with the declarations of \<open>p\<close>.
\<close>

datatype argtype = T_str | T_int | T_float

datatype action = Store argtype | Store_true | Show_help

record argument =
  option_string :: string
  action :: action
  default_value :: pyval
  help_str :: "string option"

type_synonym parser = "argument list"

definition ArgumentParser :: parser where
  "ArgumentParser =
     [\<lparr>option_string = ''--help'', action = Show_help, default_value = PyNone, help_str = None\<rparr>]"

definition ArgumentParser_parents :: "parser \<Rightarrow> parser" where
  "ArgumentParser_parents parent_parser = parent_parser"

definition add_argument :: "parser \<Rightarrow> argument \<Rightarrow> parser" where
  "add_argument p a = p @ [a]"

definition store :: "string \<Rightarrow> argtype \<Rightarrow> pyval \<Rightarrow> string option \<Rightarrow> argument" where
  "store name ty d h = \<lparr>option_string = name, action = Store ty, default_value = d, help_str = h\<rparr>"

definition store_true :: "string \<Rightarrow> argument" where
  "store_true name =
     \<lparr>option_string = name, action = Store_true, default_value = PyBool False, help_str = None\<rparr>"

definition add_model_specific_args :: "parser \<Rightarrow> parser" where
  "add_model_specific_args parent_parser =
     foldl add_argument (ArgumentParser_parents parent_parser)
       [store ''--enc_type'' T_str (PyStr ''resnet18'') (Some ''resnet18/resnet50''),
        store_true ''--first_conv'',
        store_true ''--maxpool1'',
        store ''--lr'' T_float (PyFloat (1 / 10 ^ 4)) None,
        store ''--enc_out_dim'' T_int (PyInt 512)
          (Some ''512 for resnet18, 2048 for bigger resnets, adjust for wider resnets''),
        store ''--latent_dim'' T_int (PyInt 256) None,
        store ''--batch_size'' T_int (PyInt 256) None,
        store ''--num_workers'' T_int (PyInt 8) None,
        store ''--data_dir'' T_str (PyStr ''.'') None,
        store ''--gpus'' T_int (PyInt 1) None,
        store ''--max_epochs'' T_int (PyInt 200) None,
        store ''--max_steps'' T_int (PyInt (- 1)) None,
        store_true ''--fast_dev_run'']"

text \<open>The default a parser declares for an option (the first declaration wins).\<close>

definition declared_default :: "parser \<Rightarrow> string \<Rightarrow> pyval option" where
  "declared_default p name = map_option default_value (find (\<lambda>a. option_string a = name) p)"

section \<open>The command-line entry point\<close>

text \<open>
  The namespace \<^verbatim>\<open>parse_args\<close> returns has one attribute for each declared option,
  of the declared type. \<^verbatim>\<open>max_steps\<close> is optional because \<^verbatim>\<open>cli_main\<close> may
  replace it by \<^verbatim>\<open>None\<close>.
\<close>

record args =
  arg_dataset :: string
  arg_enc_type :: string
  arg_first_conv :: bool
  arg_maxpool1 :: bool
  arg_lr :: real
  arg_enc_out_dim :: int
  arg_latent_dim :: int
  arg_batch_size :: int
  arg_num_workers :: int
  arg_data_dir :: string
  arg_gpus :: int
  arg_max_epochs :: int
  arg_max_steps :: "int option"
  arg_fast_dev_run :: bool

text \<open>The namespace after \<^verbatim>\<open>args.input_height = ...\<close> has one more attribute.\<close>

record args_h = args +
  arg_input_height :: int

definition set_input_height :: "args \<Rightarrow> int \<Rightarrow> args_h" where
  "set_input_height a h = args.extend a (args_h.fields h)"

datatype dm_cls =
  BinaryMNISTDataModule | CIFAR10DataModule | ImagenetDataModule | MNISTDataModule | STL10DataModule

text \<open>
  The external interfaces of \<^verbatim>\<open>cli_main\<close>. \<open>parse_known_args\<close> returns the
  \<^verbatim>\<open>dataset\<close> attribute of \<^verbatim>\<open>script_args\<close> (the only option of the first
  parser); the argument list is \<open>None\<close> when argparse is to read the process's own.
\<close>

record ('e, 'n, 'dm, 'tr, 'cb) cli_lib =
  parse_known_args :: "parser \<Rightarrow> string list option \<Rightarrow> 'e + string"
  parse_args :: "parser \<Rightarrow> string list option \<Rightarrow> 'e + args"
  from_argparse_args :: "dm_cls \<Rightarrow> args \<Rightarrow> 'e + 'dm"
  dm_size :: "'dm \<Rightarrow> 'e + int list"
  image_sampler :: "'e + 'cb"
  trainer_from_argparse_args :: "args_h \<Rightarrow> 'e + 'tr"
  fit :: "'tr \<Rightarrow> 'n AE \<Rightarrow> 'dm \<Rightarrow> 'e + unit"

text \<open>
  The external calls of a run, in the order they are made, each with the arguments this
  module gives it. An operation of \<^verbatim>\<open>cli_main\<close> returns the calls it made and its
  result.
\<close>

datatype event =
  Ev_parse_known_args "string list option"
  | Ev_parse_args "string list option"
  | Ev_from_argparse_args dm_cls args
  | Ev_dm_size
  | Ev_AE args_h
  | Ev_image_sampler
  | Ev_trainer_from_argparse_args args_h
  | Ev_fit

definition logged :: "event \<Rightarrow> 'e failure + 'a \<Rightarrow> event list \<times> ('e failure + 'a)" where
  "logged ev r = ([ev], r)"

definition silent :: "'e failure + 'a \<Rightarrow> event list \<times> ('e failure + 'a)" where
  "silent r = ([], r)"

definition seq_log ::
  "event list \<times> ('e failure + 'a) \<Rightarrow> ('a \<Rightarrow> event list \<times> ('e failure + 'b))
     \<Rightarrow> event list \<times> ('e failure + 'b)" where
  "seq_log m f =
     (case m of (l, r) \<Rightarrow>
        (case r of Inl e \<Rightarrow> (l, Inl e)
         | Inr a \<Rightarrow> (case f a of (l', r') \<Rightarrow> (l @ l', r'))))"

text \<open>\<^verbatim>\<open>t[-1]\<close> on a tuple: the last element, \<^verbatim>\<open>IndexError\<close> on the empty tuple.\<close>

definition subscript_last :: "int list \<Rightarrow> 'e failure + int" where
  "subscript_last t =
     (if t = [] then Inl (Implicit (IndexError ''tuple index out of range'')) else Inr (last t))"

definition py_optional_int :: "int option \<Rightarrow> pyval" where
  "py_optional_int v = (case v of None \<Rightarrow> PyNone | Some n \<Rightarrow> PyInt n)"

text \<open>
  \<^verbatim>\<open>AE(**vars(args))\<close>: the attributes named like parameters of \<^verbatim>\<open>__init__\<close>
  bind them, \<^verbatim>\<open>kl_coeff\<close> is left to its default, the others go to
  \<^verbatim>\<open>**kwargs\<close>.
\<close>

definition AE_from_vars :: "('e, 'n) nn_lib \<Rightarrow> args_h \<Rightarrow> 'e failure + 'n AE" where
  "AE_from_vars lib a =
     AE_init lib (arg_input_height a)
       \<lparr>kw_enc_type = Some (arg_enc_type a),
        kw_first_conv = Some (arg_first_conv a),
        kw_maxpool1 = Some (arg_maxpool1 a),
        kw_enc_out_dim = Some (arg_enc_out_dim a),
        kw_kl_coeff = None,
        kw_latent_dim = Some (arg_latent_dim a),
        kw_lr = Some (arg_lr a),
        kwargs =
          [(''dataset'', PyStr (arg_dataset a)),
           (''batch_size'', PyInt (arg_batch_size a)),
           (''num_workers'', PyInt (arg_num_workers a)),
           (''data_dir'', PyStr (arg_data_dir a)),
           (''gpus'', PyInt (arg_gpus a)),
           (''max_epochs'', PyInt (arg_max_epochs a)),
           (''max_steps'', py_optional_int (arg_max_steps a)),
           (''fast_dev_run'', PyBool (arg_fast_dev_run a))]\<rparr>"

text \<open>The first parser of \<^verbatim>\<open>cli_main\<close>, which declares \<^verbatim>\<open>--dataset\<close> only.\<close>

definition script_parser :: parser where
  "script_parser =
     add_argument ArgumentParser
       (store ''--dataset'' T_str (PyStr ''cifar10'') (Some ''cifar10, stl10, imagenet''))"

definition cli_main ::
  "('e, 'n, 'dm, 'tr, 'cb) cli_lib \<Rightarrow> ('e, 'n) nn_lib \<Rightarrow> string list option
     \<Rightarrow> event list \<times> ('e failure + 'dm \<times> 'n AE \<times> 'tr)" where
  "cli_main lib nn argv =
     (let parser = script_parser in
      seq_log (logged (Ev_parse_known_args argv) (callee (parse_known_args lib parser argv))) (\<lambda>dataset.
      seq_log (silent
                (if dataset = ''cifar10'' then Inr CIFAR10DataModule
                 else if dataset = ''stl10'' then Inr STL10DataModule
                 else if dataset = ''imagenet'' then Inr ImagenetDataModule
                 else Inl (Raised (ValueError (''undefined dataset '' @ dataset))))) (\<lambda>dm_cls.
      let parser' = add_model_specific_args parser in
      seq_log (logged (Ev_parse_args argv) (callee (parse_args lib parser' argv))) (\<lambda>a.
      seq_log (logged (Ev_from_argparse_args dm_cls a) (callee (from_argparse_args lib dm_cls a))) (\<lambda>dm.
      seq_log (logged Ev_dm_size (callee (dm_size lib dm))) (\<lambda>dims.
      seq_log (silent (subscript_last dims)) (\<lambda>h.
      let a1 = set_input_height a h;
          a2 = (if arg_max_steps a1 = Some (- 1) then a1\<lparr>arg_max_steps := None\<rparr> else a1)
      in
      seq_log (logged (Ev_AE a2) (AE_from_vars nn a2)) (\<lambda>model.
      seq_log (logged Ev_image_sampler (callee (image_sampler lib))) (\<lambda>callbacks.
      seq_log (logged (Ev_trainer_from_argparse_args a2) (callee (trainer_from_argparse_args lib a2))) (\<lambda>trainer.
      seq_log (logged Ev_fit (callee (fit lib trainer model dm))) (\<lambda>_.
      silent (Inr (dm, model, trainer)))))))))))))"

section \<open>A reference instance of the external interfaces\<close>

text \<open>
  To evaluate the model on concrete runs the external interfaces are instantiated:
  network modules are the constructor calls that made them, tensors are integers, and
  argparse is represented by the namespace it returns.
\<close>

datatype net =
  Resnet18_enc bool bool
  | Resnet18_dec int int bool bool
  | Resnet50_enc bool bool
  | Resnet50_dec int int bool bool
  | Linear_layer int int

definition ref_nn :: "(string, net) nn_lib" where
  "ref_nn =
     \<lparr>LightningModule_init = Inr (),
      save_hyperparameters = (\<lambda>frame. Inr ()),
      resnet18_encoder = (\<lambda>fcv mp. Inr (Resnet18_enc fcv mp)),
      resnet18_decoder = (\<lambda>l h fcv mp. Inr (Resnet18_dec l h fcv mp)),
      resnet50_encoder = (\<lambda>fcv mp. Inr (Resnet50_enc fcv mp)),
      resnet50_decoder = (\<lambda>l h fcv mp. Inr (Resnet50_dec l h fcv mp)),
      Linear = (\<lambda>i j. Inr (Linear_layer i j))\<rparr>"

definition ref_call :: "net \<Rightarrow> int \<Rightarrow> string + int" where
  "ref_call n x =
     (case n of
        Resnet18_enc _ _ \<Rightarrow> Inr (x + 1)
      | Resnet50_enc _ _ \<Rightarrow> Inr (x + 2)
      | Linear_layer _ _ \<Rightarrow> Inr (2 * x)
      | Resnet18_dec _ _ _ _ \<Rightarrow> Inr (x - 3)
      | Resnet50_dec _ _ _ _ \<Rightarrow> Inr (x - 5))"

definition ref_mse_loss :: "int \<Rightarrow> int \<Rightarrow> string \<Rightarrow> string + int" where
  "ref_mse_loss x_hat x reduction =
     (if reduction = ''mean'' then Inr ((x_hat - x) * (x_hat - x)) else Inl ''reduction'')"

definition ref_load :: "string \<Rightarrow> bool \<Rightarrow> string + string \<times> bool" where
  "ref_load url strict = Inr (url, strict)"

definition ref_dims :: "dm_cls \<Rightarrow> int list" where
  "ref_dims c =
     (case c of
        CIFAR10DataModule \<Rightarrow> [3, 32, 32]
      | STL10DataModule \<Rightarrow> [3, 96, 96]
      | ImagenetDataModule \<Rightarrow> [3, 224, 224]
      | _ \<Rightarrow> [1, 28, 28])"

definition ref_cli :: "args \<Rightarrow> (string, net, dm_cls, args_h, unit) cli_lib" where
  "ref_cli a =
     \<lparr>parse_known_args = (\<lambda>p argv. Inr (arg_dataset a)),
      parse_args = (\<lambda>p argv. Inr a),
      from_argparse_args = (\<lambda>c a'. Inr c),
      dm_size = (\<lambda>dm. Inr (ref_dims dm)),
      image_sampler = Inr (),
      trainer_from_argparse_args = (\<lambda>a'. Inr a'),
      fit = (\<lambda>tr m dm. Inr ())\<rparr>"

text \<open>The namespace of a run without arguments: every option at its declared default.\<close>

definition default_args :: args where
  "default_args =
     \<lparr>arg_dataset = ''cifar10'', arg_enc_type = ''resnet18'', arg_first_conv = False,
      arg_maxpool1 = False, arg_lr = 1 / 10 ^ 4, arg_enc_out_dim = 512, arg_latent_dim = 256,
      arg_batch_size = 256, arg_num_workers = 8, arg_data_dir = ''.'', arg_gpus = 1,
      arg_max_epochs = 200, arg_max_steps = Some (- 1), arg_fast_dev_run = False\<rparr>"

text \<open>A constructor call with every keyword argument left out.\<close>

definition ref_kwargs :: init_kwargs where
  "ref_kwargs =
     \<lparr>kw_enc_type = None, kw_first_conv = None, kw_maxpool1 = None, kw_enc_out_dim = None,
      kw_kl_coeff = None, kw_latent_dim = None, kw_lr = None, kwargs = []\<rparr>"

text \<open>
  The object the reference constructors build for \<^verbatim>\<open>AE(32, enc_type=t)\<close> when
  \<open>t\<close> is not \<^verbatim>\<open>resnet50\<close>.
\<close>

definition ref_AE :: "string \<Rightarrow> net AE" where
  "ref_AE t =
     \<lparr>hparams =
        \<lparr>hp_input_height = 32, hp_enc_type = t, hp_first_conv = False, hp_maxpool1 = False,
         hp_enc_out_dim = 512, hp_kl_coeff = 1 / 10, hp_latent_dim = 256, hp_lr = 1 / 10 ^ 4,
         hp_kwargs = []\<rparr>,
      lr = 1 / 10 ^ 4, enc_out_dim = 512, latent_dim = 256, input_height = 32,
      encoder = Resnet18_enc False False, decoder = Resnet18_dec 256 32 False False,
      fc = Linear_layer 512 256\<rparr>"

text \<open>
  The namespace after \<^verbatim>\<open>cli_main\<close> has set the input height and the step limit, and
  the model the reference constructors build from a namespace with the default
  hyperparameters.
\<close>

definition ref_args_h :: "args \<Rightarrow> int \<Rightarrow> int option \<Rightarrow> args_h" where
  "ref_args_h a h ms = (set_input_height a h)\<lparr>arg_max_steps := ms\<rparr>"

definition ref_model :: "args_h \<Rightarrow> net AE" where
  "ref_model a =
     \<lparr>hparams =
        \<lparr>hp_input_height = arg_input_height a, hp_enc_type = ''resnet18'',
         hp_first_conv = False, hp_maxpool1 = False, hp_enc_out_dim = 512,
         hp_kl_coeff = 1 / 10, hp_latent_dim = 256, hp_lr = 1 / 10 ^ 4,
         hp_kwargs =
           [(''dataset'', PyStr (arg_dataset a)),
            (''batch_size'', PyInt (arg_batch_size a)),
            (''num_workers'', PyInt (arg_num_workers a)),
            (''data_dir'', PyStr (arg_data_dir a)),
            (''gpus'', PyInt (arg_gpus a)),
            (''max_epochs'', PyInt (arg_max_epochs a)),
            (''max_steps'', py_optional_int (arg_max_steps a)),
            (''fast_dev_run'', PyBool (arg_fast_dev_run a))]\<rparr>,
      lr = 1 / 10 ^ 4, enc_out_dim = 512, latent_dim = 256,
      input_height = arg_input_height a,
      encoder = Resnet18_enc False False,
      decoder = Resnet18_dec 256 (arg_input_height a) False False,
      fc = Linear_layer 512 256\<rparr>"



section \<open>Basic facts about results\<close>

lemma seq_Inr [simp]: "seq (Inr a) f = f a"
  by (simp add: seq_def)

lemma seq_Inl [simp]: "seq (Inl e) f = Inl e"
  by (simp add: seq_def)

lemma callee_Inr [simp]: "callee (Inr a) = Inr a"
  by (simp add: callee_def)

lemma callee_Inl [simp]: "callee (Inl e) = Inl (Callee e)"
  by (simp add: callee_def)

lemma callee_eq_Inr [simp]: "(callee r = Inr a) = (r = Inr a)"
  by (cases r) simp_all

lemma callee_not_Raised [simp]: "callee r \<noteq> Inl (Raised x)"
  by (cases r) simp_all

lemma callee_not_Implicit [simp]: "callee r \<noteq> Inl (Implicit x)"
  by (cases r) simp_all

lemma seq_eq_Inr: "(seq r f = Inr b) = (\<exists>a. r = Inr a \<and> f a = Inr b)"
  by (cases r) simp_all

lemma seq_eq_Inl: "(seq r f = Inl e) = (r = Inl e \<or> (\<exists>a. r = Inr a \<and> f a = Inl e))"
  by (cases r) simp_all

lemma subscript_Some: "map_of d k = Some v \<Longrightarrow> subscript d k = Inr v"
  by (simp add: subscript_def)

lemma contains_map_of: "contains d k = (\<exists>v. map_of d k = Some v)"
proof -
  have "contains d k = (map_of d k \<noteq> None)"
    by (simp add: contains_def map_of_eq_None_iff)
  then show ?thesis by auto
qed

lemma seq_assoc: "seq (seq r f) g = seq r (\<lambda>a. seq (f a) g)"
  by (cases r) simp_all

lemma map_sum_seq: "map_sum id g (seq r f) = seq r (\<lambda>a. map_sum id g (f a))"
  by (cases r) simp_all

lemma seq_not_Raised:
  "r \<noteq> Inl (Raised x) \<Longrightarrow> (\<And>a. f a \<noteq> Inl (Raised x)) \<Longrightarrow> seq r f \<noteq> Inl (Raised x)"
  by (cases r) simp_all

lemma seq_not_Implicit:
  "r \<noteq> Inl (Implicit x) \<Longrightarrow> (\<And>a. f a \<noteq> Inl (Implicit x)) \<Longrightarrow> seq r f \<noteq> Inl (Implicit x)"
  by (cases r) simp_all

text \<open>Results with a log of calls.\<close>

lemma seq_log_pair:
  "seq_log (l, r) f = (case r of Inl e \<Rightarrow> (l, Inl e) | Inr a \<Rightarrow> apfst ((@) l) (f a))"
  by (cases r) (simp_all add: seq_log_def apfst_def map_prod_def split: prod.splits)

lemma seq_log_InrE:
  assumes "snd (seq_log m f) = Inr b"
  obtains a where "snd m = Inr a" and "snd (f a) = Inr b"
    and "fst (seq_log m f) = fst m @ fst (f a)"
  using assms by (cases m; cases "snd m") (auto simp: seq_log_def split: prod.splits)

lemma seq_log_InlE:
  assumes "snd (seq_log m f) = Inl e"
  obtains "snd m = Inl e" | a where "snd m = Inr a" and "snd (f a) = Inl e"
  using assms by (cases m; cases "snd m") (auto simp: seq_log_def split: prod.splits)

lemma snd_logged [simp]: "snd (logged ev r) = r"
  by (simp add: logged_def)

lemma fst_logged [simp]: "fst (logged ev r) = [ev]"
  by (simp add: logged_def)

lemma snd_silent [simp]: "snd (silent r) = r"
  by (simp add: silent_def)

lemma fst_silent [simp]: "fst (silent r) = []"
  by (simp add: silent_def)

section \<open>Pretrained checkpoints\<close>

text \<open>
  C1. For every checkpoint name, \<^verbatim>\<open>from_pretrained\<close> raises the lookup failure (the
  \<^verbatim>\<open>KeyError\<close> whose message starts with the name) if and only if the name is not a key
  of \<^verbatim>\<open>pretrained_urls\<close>; it raises no other exception of its own; and for a key it
  is the framework's load of the URL the registry maps the name to, with
  \<^verbatim>\<open>strict=False\<close>.
\<close>

theorem from_pretrained_lookup_failure:
  "(from_pretrained load name =
      Inl (Raised (KeyError (name @ '' not present in pretrained weights.''))))
     = (name \<notin> set (map fst pretrained_urls))
   \<and> (\<exists>x. from_pretrained load name = Inl (Raised x)) = (name \<notin> set (map fst pretrained_urls))
   \<and> (name \<in> set (map fst pretrained_urls) \<longrightarrow>
        (\<exists>url. map_of pretrained_urls name = Some url
           \<and> from_pretrained load name = callee (load url False)))"
proof -
  have absent: "from_pretrained load name =
      Inl (Raised (KeyError (name @ '' not present in pretrained weights.'')))"
    if "name \<notin> set (map fst pretrained_urls)"
    using that by (simp add: from_pretrained_def contains_def)
  have present: "\<exists>url. map_of pretrained_urls name = Some url
           \<and> from_pretrained load name = callee (load url False)"
    if "name \<in> set (map fst pretrained_urls)"
  proof -
    from that have c: "contains pretrained_urls name" by (simp add: contains_def)
    then obtain url where u: "map_of pretrained_urls name = Some url"
      by (auto simp: contains_map_of)
    with c show ?thesis by (simp add: from_pretrained_def subscript_Some)
  qed
  have no_raise: "from_pretrained load name \<noteq> Inl (Raised x)"
    if "name \<in> set (map fst pretrained_urls)" for x
  proof
    assume r: "from_pretrained load name = Inl (Raised x)"
    from present [OF that] obtain url
      where "from_pretrained load name = callee (load url False)" by blast
    with r have "callee (load url False) = Inl (Raised x)" by simp
    then show False by simp
  qed
  show ?thesis using absent present no_raise by blast
qed

text \<open>
  The registered name loads its URL; the name the docstring of \<^verbatim>\<open>__init__\<close> gives
  (\<^verbatim>\<open>resnet18-cifar10\<close>) is not a key and raises.
\<close>

theorem from_pretrained_lookup_failure_witness:
  "from_pretrained ref_load ''cifar10-resnet18'' =
     Inr (''https://pl-bolts-weights.s3.us-east-2.amazonaws.com/ae/ae-cifar10/checkpoints/epoch%3D96.ckpt'', False)
   \<and> from_pretrained ref_load ''resnet18-cifar10'' =
     Inl (Raised (KeyError ''resnet18-cifar10 not present in pretrained weights.''))"
  using from_pretrained_lookup_failure [of ref_load "''cifar10-resnet18''"]
    from_pretrained_lookup_failure [of ref_load "''resnet18-cifar10''"]
  by (simp add: pretrained_urls_def ref_load_def)

text \<open>
  C5. \<^verbatim>\<open>pretrained_weights_available()\<close> is the list of the keys of
  \<^verbatim>\<open>pretrained_urls\<close>, which is the single name \<^verbatim>\<open>cifar10-resnet18\<close>, and for
  each of these names \<^verbatim>\<open>from_pretrained\<close> loads the checkpoint from the URL the
  registry pairs with the name.
\<close>

theorem pretrained_registry:
  "pretrained_weights_available = map fst pretrained_urls
   \<and> pretrained_weights_available = [''cifar10-resnet18'']
   \<and> (\<forall>name \<in> set pretrained_weights_available.
        \<exists>url. (name, url) \<in> set pretrained_urls
          \<and> from_pretrained load name = callee (load url False))"
  by (simp add: pretrained_weights_available_def pretrained_urls_def from_pretrained_def
      contains_def subscript_def)

theorem pretrained_registry_witness:
  "''cifar10-resnet18'' \<in> set pretrained_weights_available
   \<and> (\<exists>url. (''cifar10-resnet18'', url) \<in> set pretrained_urls
          \<and> from_pretrained ref_load ''cifar10-resnet18'' = Inr (url, False))"
proof -
  have key: "''cifar10-resnet18'' \<in> set pretrained_weights_available"
    by (simp add: pretrained_weights_available_def pretrained_urls_def)
  from pretrained_registry [of ref_load]
  have "\<forall>name \<in> set pretrained_weights_available.
        \<exists>url. (name, url) \<in> set pretrained_urls
          \<and> from_pretrained ref_load name = callee (ref_load url False)"
    by blast
  from bspec [OF this key] key show ?thesis
    by (simp add: ref_load_def)
qed

section \<open>Forward pass and loss\<close>

text \<open>
  C9. \<^verbatim>\<open>forward\<close> applies only the decoder: \<^verbatim>\<open>forward(z)\<close> is the decoder's
  result on \<open>z\<close>, and it is the same whatever the encoder and the projection
  \<^verbatim>\<open>fc\<close> of the object are.
\<close>

theorem forward_decoder_only:
  "forward call self z = callee (call (decoder self) z)
   \<and> forward call (self\<lparr>encoder := e, fc := f\<rparr>) z = forward call self z"
  by (simp add: forward_def)

text \<open>
  C3. \<^verbatim>\<open>step\<close> returns a loss and a log dict exactly when the encoder applied to the
  image \<open>x\<close>, then \<^verbatim>\<open>fc\<close> applied to the features, then the decoder applied to the
  latent all return, and the mean-reduction MSE loss of the reconstruction against \<open>x\<close>
  returns that loss; the log dict has the one key \<^verbatim>\<open>loss\<close> with the same loss. The
  label \<open>y\<close> and the batch index do not matter.
\<close>

theorem step_reconstruction_loss:
  "(step call mse_loss self (x, y) batch_idx = Inr (loss, logs))
     = (\<exists>feats z x_hat.
          call (encoder self) x = Inr feats \<and> call (fc self) feats = Inr z
          \<and> call (decoder self) z = Inr x_hat \<and> mse_loss x_hat x ''mean'' = Inr loss
          \<and> logs = [(''loss'', loss)])
   \<and> step call mse_loss self (x, y) batch_idx = step call mse_loss self (x, y') batch_idx'"
  by (auto simp: step_def seq_eq_Inr)

text \<open>On the reference instance: the image 5 is encoded to 6, projected to 12 and decoded to 9.\<close>

theorem step_reconstruction_loss_witness:
  "step ref_call ref_mse_loss (ref_model (ref_args_h default_args 32 None)) (5, ''cat'') (0 :: nat)
     = Inr (16, [(''loss'', 16)])"
  using step_reconstruction_loss [where call = ref_call and mse_loss = ref_mse_loss
      and self = "ref_model (ref_args_h default_args 32 None)" and x = 5 and y = "''cat''"
      and batch_idx = "0 :: nat"
      and loss = 16 and logs = "[(''loss'', 16)]", THEN conjunct1]
  by (simp add: ref_call_def ref_mse_loss_def ref_model_def)

lemma step_not_Raised: "step call mse_loss self batch batch_idx \<noteq> Inl (Raised x)"
  unfolding step_def by (cases batch) (simp, intro seq_not_Raised callee_not_Raised, simp)

section \<open>The constructor\<close>

lemma contains_valid_encoders:
  "contains (valid_encoders lib) t = (t = ''resnet18'' \<or> t = ''resnet50'')"
  by (auto simp: contains_def valid_encoders_def)

lemma subscript_resnet18:
  "subscript (valid_encoders lib) ''resnet18'' =
     Inr \<lparr>enc = resnet18_encoder lib, dec = resnet18_decoder lib\<rparr>"
  by (simp add: subscript_def valid_encoders_def)

lemma subscript_resnet50:
  "subscript (valid_encoders lib) ''resnet50'' =
     Inr \<lparr>enc = resnet50_encoder lib, dec = resnet50_decoder lib\<rparr>"
  by (simp add: subscript_def valid_encoders_def)

lemma frame_args_sel:
  "hp_input_height (frame_args h kw) = h"
  "hp_enc_type (frame_args h kw) = arg_or ''resnet18'' (kw_enc_type kw)"
  "hp_first_conv (frame_args h kw) = arg_or False (kw_first_conv kw)"
  "hp_maxpool1 (frame_args h kw) = arg_or False (kw_maxpool1 kw)"
  "hp_enc_out_dim (frame_args h kw) = arg_or 512 (kw_enc_out_dim kw)"
  "hp_kl_coeff (frame_args h kw) = arg_or (1 / 10) (kw_kl_coeff kw)"
  "hp_latent_dim (frame_args h kw) = arg_or 256 (kw_latent_dim kw)"
  "hp_lr (frame_args h kw) = arg_or (1 / 10 ^ 4) (kw_lr kw)"
  "hp_kwargs (frame_args h kw) = kwargs kw"
  by (simp_all add: frame_args_def)

lemma AE_init_unfold:
  "AE_init lib h kw =
     seq (callee (LightningModule_init lib)) (\<lambda>_.
     seq (callee (save_hyperparameters lib (frame_args h kw))) (\<lambda>_.
     seq (callee ((if arg_or ''resnet18'' (kw_enc_type kw) = ''resnet50''
                   then resnet50_encoder lib else resnet18_encoder lib)
                  (arg_or False (kw_first_conv kw)) (arg_or False (kw_maxpool1 kw)))) (\<lambda>e.
     seq (callee ((if arg_or ''resnet18'' (kw_enc_type kw) = ''resnet50''
                   then resnet50_decoder lib else resnet18_decoder lib)
                  (arg_or 256 (kw_latent_dim kw)) h
                  (arg_or False (kw_first_conv kw)) (arg_or False (kw_maxpool1 kw)))) (\<lambda>d.
     seq (callee (Linear lib (arg_or 512 (kw_enc_out_dim kw)) (arg_or 256 (kw_latent_dim kw)))) (\<lambda>f.
     Inr \<lparr>hparams = frame_args h kw,
          lr = arg_or (1 / 10 ^ 4) (kw_lr kw), enc_out_dim = arg_or 512 (kw_enc_out_dim kw),
          latent_dim = arg_or 256 (kw_latent_dim kw), input_height = h,
          encoder = e, decoder = d, fc = f\<rparr>)))))"
proof -
  consider "arg_or ''resnet18'' (kw_enc_type kw) = ''resnet18''"
    | "arg_or ''resnet18'' (kw_enc_type kw) = ''resnet50''"
    | "arg_or ''resnet18'' (kw_enc_type kw) \<noteq> ''resnet18''"
      "arg_or ''resnet18'' (kw_enc_type kw) \<noteq> ''resnet50''"
    by blast
  then show ?thesis
  proof cases
    case 1
    then show ?thesis
      by (simp add: AE_init_def Let_def frame_args_sel contains_valid_encoders
          subscript_resnet18 seq_assoc)
  next
    case 2
    then show ?thesis
      by (simp add: AE_init_def Let_def frame_args_sel contains_valid_encoders
          subscript_resnet50 seq_assoc)
  next
    case 3
    then show ?thesis
      by (simp add: AE_init_def Let_def frame_args_sel contains_valid_encoders seq_assoc)
  qed
qed

lemma AE_init_Inr:
  "(AE_init lib h kw = Inr m) =
     (LightningModule_init lib = Inr ()
      \<and> save_hyperparameters lib (frame_args h kw) = Inr ()
      \<and> hparams m = frame_args h kw
      \<and> (if arg_or ''resnet18'' (kw_enc_type kw) = ''resnet50''
           then resnet50_encoder lib else resnet18_encoder lib)
          (arg_or False (kw_first_conv kw)) (arg_or False (kw_maxpool1 kw)) = Inr (encoder m)
      \<and> (if arg_or ''resnet18'' (kw_enc_type kw) = ''resnet50''
           then resnet50_decoder lib else resnet18_decoder lib)
          (arg_or 256 (kw_latent_dim kw)) h
          (arg_or False (kw_first_conv kw)) (arg_or False (kw_maxpool1 kw)) = Inr (decoder m)
      \<and> Linear lib (arg_or 512 (kw_enc_out_dim kw)) (arg_or 256 (kw_latent_dim kw)) = Inr (fc m)
      \<and> lr m = arg_or (1 / 10 ^ 4) (kw_lr kw)
      \<and> enc_out_dim m = arg_or 512 (kw_enc_out_dim kw)
      \<and> latent_dim m = arg_or 256 (kw_latent_dim kw)
      \<and> input_height m = h)"
  by (cases m) (auto simp: AE_init_unfold seq_eq_Inr)

lemma AE_init_not_Raised: "AE_init lib h kw \<noteq> Inl (Raised x)"
  unfolding AE_init_unfold by (intro seq_not_Raised callee_not_Raised) simp

lemma AE_init_not_Implicit: "AE_init lib h kw \<noteq> Inl (Implicit x)"
  unfolding AE_init_unfold by (intro seq_not_Implicit callee_not_Implicit) simp

lemma valid_encoders_codecs:
  "snd ` set (valid_encoders lib) =
     {\<lparr>enc = resnet18_encoder lib, dec = resnet18_decoder lib\<rparr>,
      \<lparr>enc = resnet50_encoder lib, dec = resnet50_decoder lib\<rparr>}"
  by (simp add: valid_encoders_def)

lemma ref_nn_sel:
  "LightningModule_init ref_nn = Inr ()" "save_hyperparameters ref_nn = (\<lambda>frame. Inr ())"
  "resnet18_encoder ref_nn = (\<lambda>fcv mp. Inr (Resnet18_enc fcv mp))"
  "resnet18_decoder ref_nn = (\<lambda>l h fcv mp. Inr (Resnet18_dec l h fcv mp))"
  "resnet50_encoder ref_nn = (\<lambda>fcv mp. Inr (Resnet50_enc fcv mp))"
  "resnet50_decoder ref_nn = (\<lambda>l h fcv mp. Inr (Resnet50_dec l h fcv mp))"
  "Linear ref_nn = (\<lambda>i j. Inr (Linear_layer i j))"
  by (simp_all add: ref_nn_def)

text \<open>
  C7. An object the constructor returns holds the input height it was given and the
  latent and encoder-output dimensions of the call; its \<^verbatim>\<open>fc\<close> is the linear layer
  from \<^verbatim>\<open>enc_out_dim\<close> to \<^verbatim>\<open>latent_dim\<close> features; its encoder and decoder are
  built by one entry of \<^verbatim>\<open>valid_encoders\<close>, the decoder with the latent dimension and
  input height the object stores. The constructor raises nothing of its own, neither by a
  \<^verbatim>\<open>raise\<close> nor by a lookup, whatever the encoder type: it returns an object whenever
  the framework's calls (the base constructor, \<^verbatim>\<open>save_hyperparameters\<close>, the encoder,
  decoder and linear-layer constructors) return.
\<close>

theorem AE_init_structure:
  "(AE_init lib h kw = Inr m \<longrightarrow>
      input_height m = h
      \<and> latent_dim m = arg_or 256 (kw_latent_dim kw)
      \<and> enc_out_dim m = arg_or 512 (kw_enc_out_dim kw)
      \<and> Linear lib (enc_out_dim m) (latent_dim m) = Inr (fc m)
      \<and> (\<exists>c \<in> snd ` set (valid_encoders lib).
            enc c (arg_or False (kw_first_conv kw)) (arg_or False (kw_maxpool1 kw))
              = Inr (encoder m)
            \<and> dec c (latent_dim m) (input_height m)
                (arg_or False (kw_first_conv kw)) (arg_or False (kw_maxpool1 kw))
              = Inr (decoder m)))
   \<and> AE_init lib h kw \<noteq> Inl (Raised x)
   \<and> AE_init lib h kw \<noteq> Inl (Implicit x)
   \<and> (LightningModule_init lib = Inr ()
       \<and> save_hyperparameters lib (frame_args h kw) = Inr ()
       \<and> (\<forall>c \<in> snd ` set (valid_encoders lib).
            (\<exists>e. enc c (arg_or False (kw_first_conv kw)) (arg_or False (kw_maxpool1 kw)) = Inr e)
            \<and> (\<exists>d. dec c (arg_or 256 (kw_latent_dim kw)) h
                      (arg_or False (kw_first_conv kw)) (arg_or False (kw_maxpool1 kw)) = Inr d))
       \<and> (\<exists>f. Linear lib (arg_or 512 (kw_enc_out_dim kw)) (arg_or 256 (kw_latent_dim kw)) = Inr f)
      \<longrightarrow> (\<exists>m'. AE_init lib h kw = Inr m'))"
proof (intro conjI impI)
  assume ok: "AE_init lib h kw = Inr m"
  then show "input_height m = h" "latent_dim m = arg_or 256 (kw_latent_dim kw)"
    "enc_out_dim m = arg_or 512 (kw_enc_out_dim kw)"
    by (simp_all add: AE_init_Inr)
  from ok show "Linear lib (enc_out_dim m) (latent_dim m) = Inr (fc m)"
    by (simp add: AE_init_Inr)
  from ok show "\<exists>c \<in> snd ` set (valid_encoders lib).
            enc c (arg_or False (kw_first_conv kw)) (arg_or False (kw_maxpool1 kw))
              = Inr (encoder m)
            \<and> dec c (latent_dim m) (input_height m)
                (arg_or False (kw_first_conv kw)) (arg_or False (kw_maxpool1 kw))
              = Inr (decoder m)"
    unfolding valid_encoders_codecs
    by (cases "arg_or ''resnet18'' (kw_enc_type kw) = ''resnet50''") (simp_all add: AE_init_Inr)
next
  show "AE_init lib h kw \<noteq> Inl (Raised x)" by (rule AE_init_not_Raised)
  show "AE_init lib h kw \<noteq> Inl (Implicit x)" by (rule AE_init_not_Implicit)
next
  assume a: "LightningModule_init lib = Inr ()
       \<and> save_hyperparameters lib (frame_args h kw) = Inr ()
       \<and> (\<forall>c \<in> snd ` set (valid_encoders lib).
            (\<exists>e. enc c (arg_or False (kw_first_conv kw)) (arg_or False (kw_maxpool1 kw)) = Inr e)
            \<and> (\<exists>d. dec c (arg_or 256 (kw_latent_dim kw)) h
                      (arg_or False (kw_first_conv kw)) (arg_or False (kw_maxpool1 kw)) = Inr d))
       \<and> (\<exists>f. Linear lib (arg_or 512 (kw_enc_out_dim kw)) (arg_or 256 (kw_latent_dim kw)) = Inr f)"
  then show "\<exists>m'. AE_init lib h kw = Inr m'"
    unfolding valid_encoders_codecs AE_init_unfold
    by (cases "arg_or ''resnet18'' (kw_enc_type kw) = ''resnet50''") auto
qed

theorem AE_init_structure_witness:
  "\<exists>m. AE_init ref_nn 32 (ref_kwargs\<lparr>kw_enc_type := Some ''vgg16'', kw_latent_dim := Some 128\<rparr>) = Inr m
     \<and> input_height m = 32 \<and> latent_dim m = 128 \<and> enc_out_dim m = 512
     \<and> fc m = Linear_layer 512 128
     \<and> decoder m \<in> {Resnet18_dec 128 32 False False, Resnet50_dec 128 32 False False}"
proof -
  let ?kw = "ref_kwargs\<lparr>kw_enc_type := Some ''vgg16'', kw_latent_dim := Some 128\<rparr>"
  have "\<exists>m. AE_init ref_nn 32 ?kw = Inr m"
    using AE_init_structure [of ref_nn 32 ?kw]
    by (simp add: valid_encoders_codecs ref_nn_sel ref_kwargs_def arg_or_def)
  then obtain m where m: "AE_init ref_nn 32 ?kw = Inr m" ..
  with AE_init_structure [of ref_nn 32 ?kw m]
  have "input_height m = 32 \<and> latent_dim m = 128 \<and> enc_out_dim m = 512
     \<and> fc m = Linear_layer 512 128
     \<and> decoder m \<in> {Resnet18_dec 128 32 False False, Resnet50_dec 128 32 False False}"
    by (auto simp: valid_encoders_codecs ref_nn_sel ref_kwargs_def arg_or_def)
  with m show ?thesis by blast
qed

text \<open>
  C8 says that an encoder type the constructor does not know is indistinguishable from
  \<^verbatim>\<open>resnet18\<close>. It is not: the object keeps the encoder type of the call in its
  hyperparameters. Here \<^verbatim>\<open>AE(32, enc_type='vgg16')\<close> and
  \<^verbatim>\<open>AE(32, enc_type='resnet18')\<close> on the reference instance.
\<close>

theorem AE_init_fallback_distinguishable:
  "AE_init ref_nn 32 (ref_kwargs\<lparr>kw_enc_type := Some ''vgg16''\<rparr>) = Inr (ref_AE ''vgg16'')
   \<and> AE_init ref_nn 32 (ref_kwargs\<lparr>kw_enc_type := Some ''resnet18''\<rparr>) = Inr (ref_AE ''resnet18'')
   \<and> hp_enc_type (hparams (ref_AE ''vgg16'')) = ''vgg16''
   \<and> hp_enc_type (hparams (ref_AE ''resnet18'')) = ''resnet18''
   \<and> AE_init ref_nn 32 (ref_kwargs\<lparr>kw_enc_type := Some ''vgg16''\<rparr>)
       \<noteq> AE_init ref_nn 32 (ref_kwargs\<lparr>kw_enc_type := Some ''resnet18''\<rparr>)"
  by (simp add: AE_init_unfold frame_args_def ref_nn_sel ref_kwargs_def arg_or_def ref_AE_def)

text \<open>
  C8, amended. For an encoder type other than \<^verbatim>\<open>resnet18\<close> and \<^verbatim>\<open>resnet50\<close> the
  constructor raises nothing of its own and falls back to the resnet18 encoder and decoder:
  an object it returns has the encoder and the decoder the resnet18 constructors build and
  records the encoder type of the call in its hyperparameters; and when
  \<^verbatim>\<open>save_hyperparameters\<close> accepts both calls, the result is the result for
  \<^verbatim>\<open>resnet18\<close> but for that recorded encoder type.
\<close>

theorem AE_init_fallback:
  "t \<noteq> ''resnet18'' \<and> t \<noteq> ''resnet50'' \<longrightarrow>
     AE_init lib h (kw\<lparr>kw_enc_type := Some t\<rparr>) \<noteq> Inl (Raised x)
     \<and> AE_init lib h (kw\<lparr>kw_enc_type := Some t\<rparr>) \<noteq> Inl (Implicit x)
     \<and> (AE_init lib h (kw\<lparr>kw_enc_type := Some t\<rparr>) = Inr m \<longrightarrow>
          resnet18_encoder lib (arg_or False (kw_first_conv kw)) (arg_or False (kw_maxpool1 kw))
            = Inr (encoder m)
          \<and> resnet18_decoder lib (latent_dim m) (input_height m)
              (arg_or False (kw_first_conv kw)) (arg_or False (kw_maxpool1 kw))
            = Inr (decoder m)
          \<and> hp_enc_type (hparams m) = t)
     \<and> (save_hyperparameters lib (frame_args h (kw\<lparr>kw_enc_type := Some t\<rparr>)) = Inr ()
         \<and> save_hyperparameters lib (frame_args h (kw\<lparr>kw_enc_type := Some ''resnet18''\<rparr>)) = Inr ()
         \<longrightarrow>
          map_sum id (\<lambda>m. m\<lparr>hparams := (hparams m)\<lparr>hp_enc_type := ''resnet18''\<rparr>\<rparr>)
              (AE_init lib h (kw\<lparr>kw_enc_type := Some t\<rparr>))
            = AE_init lib h (kw\<lparr>kw_enc_type := Some ''resnet18''\<rparr>))"
proof (intro impI conjI)
  assume t: "t \<noteq> ''resnet18'' \<and> t \<noteq> ''resnet50''"
  show "AE_init lib h (kw\<lparr>kw_enc_type := Some t\<rparr>) \<noteq> Inl (Raised x)"
    by (rule AE_init_not_Raised)
  show "AE_init lib h (kw\<lparr>kw_enc_type := Some t\<rparr>) \<noteq> Inl (Implicit x)"
    by (rule AE_init_not_Implicit)
  {
    assume ok: "AE_init lib h (kw\<lparr>kw_enc_type := Some t\<rparr>) = Inr m"
    with t show "resnet18_encoder lib (arg_or False (kw_first_conv kw))
        (arg_or False (kw_maxpool1 kw)) = Inr (encoder m)"
      by (simp add: AE_init_Inr arg_or_def)
    from ok t show "resnet18_decoder lib (latent_dim m) (input_height m)
        (arg_or False (kw_first_conv kw)) (arg_or False (kw_maxpool1 kw)) = Inr (decoder m)"
      by (simp add: AE_init_Inr arg_or_def)
    from ok show "hp_enc_type (hparams m) = t"
      by (simp add: AE_init_Inr frame_args_def arg_or_def)
  }
  {
    assume rec: "save_hyperparameters lib (frame_args h (kw\<lparr>kw_enc_type := Some t\<rparr>)) = Inr ()
         \<and> save_hyperparameters lib (frame_args h (kw\<lparr>kw_enc_type := Some ''resnet18''\<rparr>)) = Inr ()"
    have frame: "(frame_args h (kw\<lparr>kw_enc_type := Some t\<rparr>))\<lparr>hp_enc_type := ''resnet18''\<rparr>
        = frame_args h (kw\<lparr>kw_enc_type := Some ''resnet18''\<rparr>)"
      by (simp add: frame_args_def arg_or_def)
    from t rec show "map_sum id (\<lambda>m. m\<lparr>hparams := (hparams m)\<lparr>hp_enc_type := ''resnet18''\<rparr>\<rparr>)
              (AE_init lib h (kw\<lparr>kw_enc_type := Some t\<rparr>))
            = AE_init lib h (kw\<lparr>kw_enc_type := Some ''resnet18''\<rparr>)"
      by (simp add: AE_init_unfold map_sum_seq frame arg_or_def)
  }
qed

theorem AE_init_fallback_witness:
  "AE_init ref_nn 32 (ref_kwargs\<lparr>kw_enc_type := Some ''vgg16''\<rparr>) = Inr (ref_AE ''vgg16'')
   \<and> encoder (ref_AE ''vgg16'') = Resnet18_enc False False
   \<and> decoder (ref_AE ''vgg16'') = Resnet18_dec 256 32 False False
   \<and> map_sum id (\<lambda>m. m\<lparr>hparams := (hparams m)\<lparr>hp_enc_type := ''resnet18''\<rparr>\<rparr>)
        (AE_init ref_nn 32 (ref_kwargs\<lparr>kw_enc_type := Some ''vgg16''\<rparr>))
      = AE_init ref_nn 32 (ref_kwargs\<lparr>kw_enc_type := Some ''resnet18''\<rparr>)"
proof -
  let ?kw = "ref_kwargs\<lparr>kw_enc_type := Some ''vgg16''\<rparr>"
  have ne: "''vgg16'' \<noteq> ''resnet18'' \<and> ''vgg16'' \<noteq> ''resnet50''" by simp
  have run: "AE_init ref_nn 32 ?kw = Inr (ref_AE ''vgg16'')"
    by (simp add: AE_init_def Let_def frame_args_def ref_kwargs_def arg_or_def contains_def
        valid_encoders_def ref_nn_sel ref_AE_def)
  have rec: "save_hyperparameters ref_nn (frame_args 32 ?kw) = Inr ()
     \<and> save_hyperparameters ref_nn (frame_args 32 (ref_kwargs\<lparr>kw_enc_type := Some ''resnet18''\<rparr>))
         = Inr ()"
    by (simp add: ref_nn_sel)
  from AE_init_fallback [where t = "''vgg16''" and lib = ref_nn and h = 32 and kw = ref_kwargs
      and m = "ref_AE ''vgg16''" and x = "KeyError ''vgg16''"] ne run rec
  have "encoder (ref_AE ''vgg16'') = Resnet18_enc False False
   \<and> decoder (ref_AE ''vgg16'') = Resnet18_dec 256 32 False False
   \<and> map_sum id (\<lambda>m. m\<lparr>hparams := (hparams m)\<lparr>hp_enc_type := ''resnet18''\<rparr>\<rparr>)
        (AE_init ref_nn 32 ?kw)
      = AE_init ref_nn 32 (ref_kwargs\<lparr>kw_enc_type := Some ''resnet18''\<rparr>)"
    by (simp add: ref_nn_sel ref_kwargs_def arg_or_def ref_AE_def)
  with run show ?thesis by simp
qed

section \<open>Runs of the command-line entry point\<close>

lemmas cli_unfold = cli_main_def Let_def logged_def silent_def seq_log_pair

lemma cli_main_undefined_dataset:
  assumes "parse_known_args lib script_parser argv = Inr d"
    and "d \<noteq> ''cifar10''" "d \<noteq> ''stl10''" "d \<noteq> ''imagenet''"
  shows "cli_main lib nn argv =
     ([Ev_parse_known_args argv], Inl (Raised (ValueError (''undefined dataset '' @ d))))"
  using assms by (simp add: cli_unfold)

lemma cli_main_prefix:
  assumes "parse_known_args lib script_parser argv = Inr d"
    and "d = ''cifar10'' \<or> d = ''stl10'' \<or> d = ''imagenet''"
    and "parse_args lib (add_model_specific_args script_parser) argv = Inr a"
  shows "take 3 (fst (cli_main lib nn argv)) =
     [Ev_parse_known_args argv, Ev_parse_args argv,
      Ev_from_argparse_args
        (if d = ''cifar10'' then CIFAR10DataModule
         else if d = ''stl10'' then STL10DataModule else ImagenetDataModule) a]"
  using assms(2)
proof (elim disjE)
  assume "d = ''cifar10''"
  with assms(1,3) show ?thesis by (simp add: cli_unfold split: sum.splits)
next
  assume "d = ''stl10''"
  with assms(1,3) show ?thesis by (simp add: cli_unfold split: sum.splits)
next
  assume "d = ''imagenet''"
  with assms(1,3) show ?thesis by (simp add: cli_unfold split: sum.splits)
qed

lemma cli_main_events:
  assumes "ev \<in> set (fst (cli_main lib nn argv))"
  shows "(\<forall>c a. ev = Ev_from_argparse_args c a \<longrightarrow>
           (\<exists>d. parse_known_args lib script_parser argv = Inr d
              \<and> (d = ''cifar10'' \<or> d = ''stl10'' \<or> d = ''imagenet'')
              \<and> c = (if d = ''cifar10'' then CIFAR10DataModule
                      else if d = ''stl10'' then STL10DataModule else ImagenetDataModule))
           \<and> parse_args lib (add_model_specific_args script_parser) argv = Inr a)
       \<and> (\<forall>a'. ev = Ev_AE a' \<or> ev = Ev_trainer_from_argparse_args a' \<longrightarrow>
           (\<exists>a h. parse_args lib (add_model_specific_args script_parser) argv = Inr a
              \<and> a' = (if arg_max_steps a = Some (- 1)
                       then (set_input_height a h)\<lparr>arg_max_steps := None\<rparr>
                       else set_input_height a h)))"
proof (cases "parse_known_args lib script_parser argv")
  case (Inl e)
  with assms show ?thesis by (simp add: cli_unfold)
next
  case (Inr d)
  note pk = this
  show ?thesis
  proof (cases "d = ''cifar10'' \<or> d = ''stl10'' \<or> d = ''imagenet''")
    case False
    with assms pk show ?thesis by (simp add: cli_unfold)
  next
    case True
    note valid = this
    show ?thesis
    proof (cases "parse_args lib (add_model_specific_args script_parser) argv")
      case (Inl e)
      with assms pk valid show ?thesis by (auto simp: cli_unfold)
    next
      case (Inr a)
      with assms pk valid show ?thesis
        by (auto simp: cli_unfold set_input_height_def args.defs args_h.defs
            split: sum.splits if_splits)
    qed
  qed
qed

lemma select_eq_Inr:
  "((if d = ''cifar10'' then Inr CIFAR10DataModule
     else if d = ''stl10'' then Inr STL10DataModule
     else if d = ''imagenet'' then Inr ImagenetDataModule
     else Inl X) = Inr c)
   = (d = ''cifar10'' \<and> c = CIFAR10DataModule \<or> d = ''stl10'' \<and> c = STL10DataModule
      \<or> d = ''imagenet'' \<and> c = ImagenetDataModule)"
  by auto

lemma subscript_last_Inr: "(subscript_last t = Inr h) = (t \<noteq> [] \<and> h = last t)"
  by (auto simp: subscript_last_def)

lemma cli_main_success:
  assumes "snd (cli_main lib nn argv) = Inr (dm, model, trainer)"
  shows "\<exists>d dm_cls a dims a'.
      parse_known_args lib script_parser argv = Inr d
      \<and> (d = ''cifar10'' \<and> dm_cls = CIFAR10DataModule \<or> d = ''stl10'' \<and> dm_cls = STL10DataModule
         \<or> d = ''imagenet'' \<and> dm_cls = ImagenetDataModule)
      \<and> parse_args lib (add_model_specific_args script_parser) argv = Inr a
      \<and> from_argparse_args lib dm_cls a = Inr dm
      \<and> dm_size lib dm = Inr dims
      \<and> dims \<noteq> []
      \<and> a' = (if arg_max_steps (set_input_height a (last dims)) = Some (- 1)
               then (set_input_height a (last dims))\<lparr>arg_max_steps := None\<rparr>
               else set_input_height a (last dims))
      \<and> AE_from_vars nn a' = Inr model
      \<and> trainer_from_argparse_args lib a' = Inr trainer
      \<and> fit lib trainer model dm = Inr ()
      \<and> fst (cli_main lib nn argv) =
          [Ev_parse_known_args argv, Ev_parse_args argv, Ev_from_argparse_args dm_cls a,
           Ev_dm_size, Ev_AE a', Ev_image_sampler, Ev_trainer_from_argparse_args a', Ev_fit]"
  using assms unfolding cli_main_def Let_def
  apply (elim seq_log_InrE)
  apply (simp only: snd_logged snd_silent fst_logged fst_silent callee_eq_Inr
      select_eq_Inr subscript_last_Inr sum.inject prod.inject append.simps)
  apply (elim conjE)
  apply hypsubst
  apply (intro exI conjI)
            apply (assumption | rule refl | (simp; fail))+
  done

lemma AE_from_vars_not_Raised [simp]: "AE_from_vars nn a \<noteq> Inl (Raised x)"
  by (simp add: AE_from_vars_def AE_init_not_Raised)

lemma subscript_last_not_Raised [simp]: "subscript_last t \<noteq> Inl (Raised x)"
  by (simp add: subscript_last_def)

lemma cli_main_Raised:
  assumes "snd (cli_main lib nn argv) = Inl (Raised x)"
  shows "\<exists>d. parse_known_args lib script_parser argv = Inr d
           \<and> d \<noteq> ''cifar10'' \<and> d \<noteq> ''stl10'' \<and> d \<noteq> ''imagenet''
           \<and> x = ValueError (''undefined dataset '' @ d)"
  using assms unfolding cli_main_def Let_def
  by (elim seq_log_InlE; simp split: if_splits)

lemma set_input_height_max_steps [simp]:
  "arg_max_steps (set_input_height a h) = arg_max_steps a"
  by (simp add: set_input_height_def args.defs args_h.defs)

lemma set_input_height_lr [simp]: "arg_lr (set_input_height a h) = arg_lr a"
  by (simp add: set_input_height_def args.defs args_h.defs)


text \<open>Two runs on the reference instance, evaluated.\<close>

lemma ref_cli_sel:
  "parse_known_args (ref_cli a) = (\<lambda>p argv. Inr (arg_dataset a))"
  "parse_args (ref_cli a) = (\<lambda>p argv. Inr a)"
  "from_argparse_args (ref_cli a) = (\<lambda>c a'. Inr c)"
  "dm_size (ref_cli a) = (\<lambda>dm. Inr (ref_dims dm))"
  "image_sampler (ref_cli a) = Inr ()"
  "trainer_from_argparse_args (ref_cli a) = (\<lambda>a'. Inr a')"
  "fit (ref_cli a) = (\<lambda>tr m dm. Inr ())"
  by (simp_all add: ref_cli_def)

lemmas ref_eval = cli_unfold ref_cli_sel subscript_last_def ref_dims_def AE_from_vars_def
  AE_init_unfold frame_args_def arg_or_def ref_nn_sel ref_model_def ref_args_h_def
  default_args_def set_input_height_def args.defs args_h.defs

lemma ref_run_default:
  "cli_main (ref_cli default_args) ref_nn None =
     ([Ev_parse_known_args None, Ev_parse_args None,
       Ev_from_argparse_args CIFAR10DataModule default_args, Ev_dm_size,
       Ev_AE (ref_args_h default_args 32 None), Ev_image_sampler,
       Ev_trainer_from_argparse_args (ref_args_h default_args 32 None), Ev_fit],
      Inr (CIFAR10DataModule, ref_model (ref_args_h default_args 32 None),
           ref_args_h default_args 32 None))"
  by (simp add: ref_eval)

lemma ref_run_stl10:
  "cli_main (ref_cli (default_args\<lparr>arg_dataset := ''stl10'', arg_max_steps := Some 1000\<rparr>)) ref_nn
       (Some [''--dataset'', ''stl10'', ''--max_steps'', ''1000'']) =
     ([Ev_parse_known_args (Some [''--dataset'', ''stl10'', ''--max_steps'', ''1000'']),
       Ev_parse_args (Some [''--dataset'', ''stl10'', ''--max_steps'', ''1000'']),
       Ev_from_argparse_args STL10DataModule
         (default_args\<lparr>arg_dataset := ''stl10'', arg_max_steps := Some 1000\<rparr>),
       Ev_dm_size,
       Ev_AE (ref_args_h (default_args\<lparr>arg_dataset := ''stl10''\<rparr>) 96 (Some 1000)),
       Ev_image_sampler,
       Ev_trainer_from_argparse_args
         (ref_args_h (default_args\<lparr>arg_dataset := ''stl10''\<rparr>) 96 (Some 1000)),
       Ev_fit],
      Inr (STL10DataModule,
           ref_model (ref_args_h (default_args\<lparr>arg_dataset := ''stl10''\<rparr>) 96 (Some 1000)),
           ref_args_h (default_args\<lparr>arg_dataset := ''stl10''\<rparr>) 96 (Some 1000)))"
  by (simp add: ref_eval)


lemma declared_default_max_steps:
  "declared_default (add_model_specific_args script_parser) ''--max_steps'' = Some (PyInt (- 1))"
  by (simp add: declared_default_def add_model_specific_args_def script_parser_def
      ArgumentParser_def ArgumentParser_parents_def add_argument_def store_def store_true_def)

text \<open>
  C4. With \<open>d\<close> the value argparse returns for \<^verbatim>\<open>--dataset\<close>: when \<open>d\<close> is none
  of \<^verbatim>\<open>cifar10\<close>, \<^verbatim>\<open>stl10\<close>, \<^verbatim>\<open>imagenet\<close>, the run ends with the
  \<^verbatim>\<open>ValueError\<close> naming \<open>d\<close> and its only external call was the first parse, so no
  model was constructed and no training launched. Otherwise, once the second parse
  returns, the next call builds the data module of the class that belongs to \<open>d\<close>
  (CIFAR10, STL10, ImageNet); no data module of another class is ever built, and the data
  module a run returns is of that class.
\<close>

theorem cli_main_selects_data_module:
  "parse_known_args lib script_parser argv = Inr d \<longrightarrow>
     (d \<noteq> ''cifar10'' \<and> d \<noteq> ''stl10'' \<and> d \<noteq> ''imagenet'' \<longrightarrow>
        cli_main lib nn argv =
          ([Ev_parse_known_args argv], Inl (Raised (ValueError (''undefined dataset '' @ d)))))
     \<and> (\<forall>a. parse_args lib (add_model_specific_args script_parser) argv = Inr a \<longrightarrow>
          (d = ''cifar10'' \<longrightarrow> take 3 (fst (cli_main lib nn argv)) =
             [Ev_parse_known_args argv, Ev_parse_args argv,
              Ev_from_argparse_args CIFAR10DataModule a])
          \<and> (d = ''stl10'' \<longrightarrow> take 3 (fst (cli_main lib nn argv)) =
             [Ev_parse_known_args argv, Ev_parse_args argv,
              Ev_from_argparse_args STL10DataModule a])
          \<and> (d = ''imagenet'' \<longrightarrow> take 3 (fst (cli_main lib nn argv)) =
             [Ev_parse_known_args argv, Ev_parse_args argv,
              Ev_from_argparse_args ImagenetDataModule a]))
     \<and> (\<forall>c a. Ev_from_argparse_args c a \<in> set (fst (cli_main lib nn argv)) \<longrightarrow>
          (d = ''cifar10'' \<and> c = CIFAR10DataModule \<or> d = ''stl10'' \<and> c = STL10DataModule
           \<or> d = ''imagenet'' \<and> c = ImagenetDataModule))
     \<and> (\<forall>dm model tr. snd (cli_main lib nn argv) = Inr (dm, model, tr) \<longrightarrow>
          (\<exists>c a. (d = ''cifar10'' \<and> c = CIFAR10DataModule \<or> d = ''stl10'' \<and> c = STL10DataModule
                   \<or> d = ''imagenet'' \<and> c = ImagenetDataModule)
             \<and> from_argparse_args lib c a = Inr dm))"
proof (intro impI conjI allI)
  assume pk: "parse_known_args lib script_parser argv = Inr d"
  {
    assume "d \<noteq> ''cifar10'' \<and> d \<noteq> ''stl10'' \<and> d \<noteq> ''imagenet''"
    with pk show "cli_main lib nn argv =
          ([Ev_parse_known_args argv], Inl (Raised (ValueError (''undefined dataset '' @ d))))"
      by (simp add: cli_main_undefined_dataset)
  }
  {
    fix a
    assume pa: "parse_args lib (add_model_specific_args script_parser) argv = Inr a"
    {
      assume "d = ''cifar10''"
      with cli_main_prefix [OF pk _ pa, of nn]
      show "take 3 (fst (cli_main lib nn argv)) =
             [Ev_parse_known_args argv, Ev_parse_args argv,
              Ev_from_argparse_args CIFAR10DataModule a]" by simp
    }
    {
      assume "d = ''stl10''"
      with cli_main_prefix [OF pk _ pa, of nn]
      show "take 3 (fst (cli_main lib nn argv)) =
             [Ev_parse_known_args argv, Ev_parse_args argv,
              Ev_from_argparse_args STL10DataModule a]" by simp
    }
    {
      assume "d = ''imagenet''"
      with cli_main_prefix [OF pk _ pa, of nn]
      show "take 3 (fst (cli_main lib nn argv)) =
             [Ev_parse_known_args argv, Ev_parse_args argv,
              Ev_from_argparse_args ImagenetDataModule a]" by simp
    }
  }
  {
    fix c a
    assume "Ev_from_argparse_args c a \<in> set (fst (cli_main lib nn argv))"
    from cli_main_events [OF this] pk
    show "d = ''cifar10'' \<and> c = CIFAR10DataModule \<or> d = ''stl10'' \<and> c = STL10DataModule
           \<or> d = ''imagenet'' \<and> c = ImagenetDataModule"
      by auto
  }
  {
    fix dm model tr
    assume "snd (cli_main lib nn argv) = Inr (dm, model, tr)"
    from cli_main_success [OF this] pk
    show "\<exists>c a. (d = ''cifar10'' \<and> c = CIFAR10DataModule \<or> d = ''stl10'' \<and> c = STL10DataModule
                   \<or> d = ''imagenet'' \<and> c = ImagenetDataModule)
             \<and> from_argparse_args lib c a = Inr dm"
      by (elim exE conjE) (simp, blast)
  }
qed

theorem cli_main_selects_data_module_witness:
  "take 3 (fst (cli_main (ref_cli (default_args\<lparr>arg_dataset := ''stl10''\<rparr>)) ref_nn None)) =
     [Ev_parse_known_args None, Ev_parse_args None,
      Ev_from_argparse_args STL10DataModule (default_args\<lparr>arg_dataset := ''stl10''\<rparr>)]
   \<and> cli_main (ref_cli (default_args\<lparr>arg_dataset := ''cifar100''\<rparr>)) ref_nn None =
       ([Ev_parse_known_args None], Inl (Raised (ValueError ''undefined dataset cifar100'')))"
  using
    cli_main_selects_data_module [of "ref_cli (default_args\<lparr>arg_dataset := ''stl10''\<rparr>)"
      None "''stl10''" ref_nn]
    cli_main_selects_data_module [of "ref_cli (default_args\<lparr>arg_dataset := ''cifar100''\<rparr>)"
      None "''cifar100''" ref_nn]
  by (simp add: ref_cli_sel default_args_def)

text \<open>
  C10. Whenever a run constructs the model or the trainer, the namespace it constructs
  them from has \<^verbatim>\<open>max_steps = None\<close> if the parsed value was \<open>-1\<close>, and the parsed
  value otherwise; a run that returns has constructed both from that namespace; and
  \<open>-1\<close> is the default the parser declares for \<^verbatim>\<open>--max_steps\<close>.
\<close>

theorem cli_main_max_steps:
  "(\<forall>ev \<in> set (fst (cli_main lib nn argv)).
      \<forall>a'. ev = Ev_AE a' \<or> ev = Ev_trainer_from_argparse_args a' \<longrightarrow>
        (\<exists>a. parse_args lib (add_model_specific_args script_parser) argv = Inr a
           \<and> arg_max_steps a' = (if arg_max_steps a = Some (- 1) then None else arg_max_steps a)))
   \<and> (snd (cli_main lib nn argv) = Inr (dm, model, tr) \<longrightarrow>
        (\<exists>a'. AE_from_vars nn a' = Inr model \<and> trainer_from_argparse_args lib a' = Inr tr
           \<and> Ev_AE a' \<in> set (fst (cli_main lib nn argv))
           \<and> Ev_trainer_from_argparse_args a' \<in> set (fst (cli_main lib nn argv))))
   \<and> declared_default (add_model_specific_args script_parser) ''--max_steps'' = Some (PyInt (- 1))"
proof (intro conjI ballI allI impI)
  fix ev a'
  assume "ev \<in> set (fst (cli_main lib nn argv))"
    and "ev = Ev_AE a' \<or> ev = Ev_trainer_from_argparse_args a'"
  with cli_main_events [of ev lib nn argv]
  obtain a h where pa: "parse_args lib (add_model_specific_args script_parser) argv = Inr a"
    and a': "a' = (if arg_max_steps a = Some (- 1)
                   then (set_input_height a h)\<lparr>arg_max_steps := None\<rparr>
                   else set_input_height a h)"
    by blast
  from a' have "arg_max_steps a' = (if arg_max_steps a = Some (- 1) then None else arg_max_steps a)"
    by simp
  with pa show "\<exists>a. parse_args lib (add_model_specific_args script_parser) argv = Inr a
           \<and> arg_max_steps a' = (if arg_max_steps a = Some (- 1) then None else arg_max_steps a)"
    by blast
next
  assume "snd (cli_main lib nn argv) = Inr (dm, model, tr)"
  from cli_main_success [OF this]
  show "\<exists>a'. AE_from_vars nn a' = Inr model \<and> trainer_from_argparse_args lib a' = Inr tr
           \<and> Ev_AE a' \<in> set (fst (cli_main lib nn argv))
           \<and> Ev_trainer_from_argparse_args a' \<in> set (fst (cli_main lib nn argv))"
    by (elim exE conjE) (rule exI, simp)
next
  show "declared_default (add_model_specific_args script_parser) ''--max_steps'' = Some (PyInt (- 1))"
    by (rule declared_default_max_steps)
qed

theorem cli_main_max_steps_witness:
  "arg_max_steps (ref_args_h default_args 32 None) = None
   \<and> Ev_AE (ref_args_h default_args 32 None)
        \<in> set (fst (cli_main (ref_cli default_args) ref_nn None))
   \<and> arg_max_steps (ref_args_h (default_args\<lparr>arg_dataset := ''stl10''\<rparr>) 96 (Some 1000)) = Some 1000
   \<and> Ev_trainer_from_argparse_args (ref_args_h (default_args\<lparr>arg_dataset := ''stl10''\<rparr>) 96 (Some 1000))
        \<in> set (fst (cli_main
              (ref_cli (default_args\<lparr>arg_dataset := ''stl10'', arg_max_steps := Some 1000\<rparr>)) ref_nn
              (Some [''--dataset'', ''stl10'', ''--max_steps'', ''1000''])))"
proof -
  let ?a1 = "ref_args_h default_args 32 None"
  let ?a2 = "ref_args_h (default_args\<lparr>arg_dataset := ''stl10''\<rparr>) 96 (Some 1000)"
  let ?argv = "Some [''--dataset'', ''stl10'', ''--max_steps'', ''1000'']"
  let ?lib2 = "ref_cli (default_args\<lparr>arg_dataset := ''stl10'', arg_max_steps := Some 1000\<rparr>)"
  have in1: "Ev_AE ?a1 \<in> set (fst (cli_main (ref_cli default_args) ref_nn None))"
    by (simp add: ref_run_default)
  have in2: "Ev_trainer_from_argparse_args ?a2 \<in> set (fst (cli_main ?lib2 ref_nn ?argv))"
    by (simp add: ref_run_stl10)
  from cli_main_max_steps [of "ref_cli default_args" ref_nn None] in1
  have "\<exists>a. parse_args (ref_cli default_args) (add_model_specific_args script_parser) None = Inr a
           \<and> arg_max_steps ?a1 = (if arg_max_steps a = Some (- 1) then None else arg_max_steps a)"
    by blast
  then have m1: "arg_max_steps ?a1 = None"
    by (simp add: ref_cli_sel default_args_def)
  from cli_main_max_steps [of ?lib2 ref_nn ?argv] in2
  have "\<exists>a. parse_args ?lib2 (add_model_specific_args script_parser) ?argv = Inr a
           \<and> arg_max_steps ?a2 = (if arg_max_steps a = Some (- 1) then None else arg_max_steps a)"
    by blast
  then have m2: "arg_max_steps ?a2 = Some 1000"
    by (simp add: ref_cli_sel default_args_def)
  from in1 in2 m1 m2 show ?thesis by blast
qed

section \<open>The learning rate\<close>



section \<open>Explicit errors\<close>

text \<open>
  C2 says the lookup failure of \<^verbatim>\<open>from_pretrained\<close> is the only error this module
  raises itself. It is not: \<^verbatim>\<open>cli_main\<close> raises \<^verbatim>\<open>ValueError\<close> for a dataset
  it does not know, here \<^verbatim>\<open>mnist\<close>.
\<close>

theorem cli_main_raises_ValueError:
  "cli_main (ref_cli (default_args\<lparr>arg_dataset := ''mnist''\<rparr>)) ref_nn
       (Some [''--dataset'', ''mnist''])
     = ([Ev_parse_known_args (Some [''--dataset'', ''mnist''])],
        Inl (Raised (ValueError ''undefined dataset mnist'')))"
  by (simp add: cli_unfold ref_cli_sel default_args_def)

text \<open>
  C2, amended. This module raises exactly two errors itself: the \<^verbatim>\<open>KeyError\<close> of
  \<^verbatim>\<open>from_pretrained\<close> for a name that is not a key of the registry, and the
  \<^verbatim>\<open>ValueError\<close> of \<^verbatim>\<open>cli_main\<close> for a dataset other than \<^verbatim>\<open>cifar10\<close>,
  \<^verbatim>\<open>stl10\<close> and \<^verbatim>\<open>imagenet\<close>. The constructor, \<^verbatim>\<open>forward\<close>,
  \<^verbatim>\<open>step\<close>, \<^verbatim>\<open>training_step\<close>, \<^verbatim>\<open>validation_step\<close> and
  \<^verbatim>\<open>configure_optimizers\<close> raise none.
\<close>

theorem explicit_errors:
  "(from_pretrained load name = Inl (Raised x) \<longrightarrow>
      name \<notin> set (map fst pretrained_urls)
      \<and> x = KeyError (name @ '' not present in pretrained weights.''))
   \<and> (snd (cli_main lib nn argv) = Inl (Raised x) \<longrightarrow>
        (\<exists>d. parse_known_args lib script_parser argv = Inr d
           \<and> d \<noteq> ''cifar10'' \<and> d \<noteq> ''stl10'' \<and> d \<noteq> ''imagenet''
           \<and> x = ValueError (''undefined dataset '' @ d)))
   \<and> AE_init nn h kw \<noteq> Inl (Raised x)
   \<and> forward call m z \<noteq> Inl (Raised x)
   \<and> step call mse_loss m batch i \<noteq> Inl (Raised x)
   \<and> training_step call mse_loss TrainResult log_dict m batch i \<noteq> Inl (Raised x)
   \<and> validation_step call mse_loss EvalResult log_dict m batch i \<noteq> Inl (Raised x)
   \<and> configure_optimizers parameters Adam m \<noteq> Inl (Raised x)"
proof (intro conjI impI)
  assume r: "from_pretrained load name = Inl (Raised x)"
  show "name \<notin> set (map fst pretrained_urls)"
  proof
    assume "name \<in> set (map fst pretrained_urls)"
    then have c: "contains pretrained_urls name" by (simp add: contains_def)
    then obtain url where "map_of pretrained_urls name = Some url"
      by (auto simp: contains_map_of)
    with c r show False by (simp add: from_pretrained_def subscript_Some)
  qed
  with r show "x = KeyError (name @ '' not present in pretrained weights.'')"
    by (simp add: from_pretrained_def contains_def)
next
  assume "snd (cli_main lib nn argv) = Inl (Raised x)"
  then show "\<exists>d. parse_known_args lib script_parser argv = Inr d
           \<and> d \<noteq> ''cifar10'' \<and> d \<noteq> ''stl10'' \<and> d \<noteq> ''imagenet''
           \<and> x = ValueError (''undefined dataset '' @ d)"
    by (rule cli_main_Raised)
next
  show "AE_init nn h kw \<noteq> Inl (Raised x)" by (rule AE_init_not_Raised)
  show "forward call m z \<noteq> Inl (Raised x)" by (simp add: forward_def)
  show "step call mse_loss m batch i \<noteq> Inl (Raised x)" by (rule step_not_Raised)
  show "training_step call mse_loss TrainResult log_dict m batch i \<noteq> Inl (Raised x)"
    unfolding training_step_def
    by (intro seq_not_Raised step_not_Raised) (auto simp: seq_eq_Inl)
  show "validation_step call mse_loss EvalResult log_dict m batch i \<noteq> Inl (Raised x)"
    unfolding validation_step_def
    by (intro seq_not_Raised step_not_Raised) (auto simp: seq_eq_Inl)
  show "configure_optimizers parameters Adam m \<noteq> Inl (Raised x)"
    by (simp add: configure_optimizers_def)
qed

theorem explicit_errors_witness:
  "snd (cli_main (ref_cli (default_args\<lparr>arg_dataset := ''svhn''\<rparr>)) ref_nn None)
     = Inl (Raised (ValueError ''undefined dataset svhn''))
   \<and> from_pretrained ref_load ''resnet50-imagenet''
     = Inl (Raised (KeyError ''resnet50-imagenet not present in pretrained weights.''))
   \<and> ''resnet50-imagenet'' \<notin> set (map fst pretrained_urls)"
proof -
  let ?lib = "ref_cli (default_args\<lparr>arg_dataset := ''svhn''\<rparr>)"
  have 1: "snd (cli_main ?lib ref_nn None) = Inl (Raised (ValueError ''undefined dataset svhn''))"
    by (simp add: cli_unfold ref_cli_sel default_args_def)
  have 2: "from_pretrained ref_load ''resnet50-imagenet''
     = Inl (Raised (KeyError ''resnet50-imagenet not present in pretrained weights.''))"
    by (simp add: from_pretrained_def contains_def pretrained_urls_def)
  from explicit_errors [where load = ref_load and name = "''resnet50-imagenet''"
      and x = "KeyError ''resnet50-imagenet not present in pretrained weights.''", THEN conjunct1] 2
  have "''resnet50-imagenet'' \<notin> set (map fst pretrained_urls)" by simp
  with 1 2 show ?thesis by blast
qed

end
